theory Spec2Isabelle
  imports Complex_Main
begin

section \<open>Python values\<close>

text \<open>
  The exceptions the modelled code can raise. \<open>KeyError\<close> carries the missing key, as
  Python's does.
\<close>

datatype error = KeyError string | IndexError | TypeError | ValueError | AttributeError

text \<open>
  A Python float. A finite double is taken as the real number it denotes (the code only
  copies and compares floats, it never computes with them); not-a-number and the two
  infinities are values of their own. Equality of \<open>pyfloat\<close> in this theory is identity
  of the value, not Python's \<open>==\<close> (under which not-a-number differs from itself).
\<close>

datatype pyfloat = NaN | NegInf | Fin real | PosInf

text \<open>A \<open>datetime.date\<close> and a \<open>datetime.datetime\<close> at minute precision.\<close>

datatype date = Date (d_year: int) (d_month: int) (d_day: int)

datatype datetime = Datetime (dt_date: date) (dt_hour: int) (dt_minute: int)

text \<open>
  The dynamically typed values that reach the constructors and the filter mapping:
  \<open>None\<close>, booleans, strings, floats and dates.
\<close>

datatype pyval = PNone | PBool bool | PStr string | PFloat pyfloat | PDate date

text \<open>
  \<open>float(x)\<close>. Parsing a string is Python's own numeric-literal parser; it is taken as a
  parameter \<open>parse\<close> (\<open>None\<close> where Python raises \<open>ValueError\<close>).
\<close>

fun py_float :: "(string \<Rightarrow> pyfloat option) \<Rightarrow> pyval \<Rightarrow> error + pyfloat" where
  "py_float parse PNone = Inl TypeError"
| "py_float parse (PBool b) = Inr (Fin (if b then 1 else 0))"
| "py_float parse (PStr s) = (case parse s of None \<Rightarrow> Inl ValueError | Some f \<Rightarrow> Inr f)"
| "py_float parse (PFloat f) = Inr f"
| "py_float parse (PDate d) = Inl TypeError"

text \<open>\<open>bool(x)\<close>: Python's truth value.\<close>

fun py_bool :: "pyval \<Rightarrow> bool" where
  "py_bool PNone = False"
| "py_bool (PBool b) = b"
| "py_bool (PStr s) = (s \<noteq> [])"
| "py_bool (PFloat f) = (f \<noteq> Fin 0)"
| "py_bool (PDate d) = True"

section \<open>models.py\<close>

type_synonym neo_ref = nat
type_synonym ca_ref = nat

text \<open>
  \<open>NearEarthObject\<close>: the attributes set by \<open>__init__\<close>. \<open>approaches\<close> holds references
  to close-approach objects.
\<close>

record NearEarthObject =
  designation :: string
  name :: "string option"
  diameter :: pyfloat
  hazardous :: bool
  approaches :: "ca_ref list"

text \<open>
  \<open>CloseApproach\<close>. \<open>neo\<close> is \<open>None\<close> until the database links it. The attributes
  \<open>name\<close>, \<open>diameter\<close> and \<open>hazardous\<close> do not exist on a fresh object: the database
  constructor creates them. Here \<open>None\<close> in these three fields means that the attribute
  is absent, and \<open>Some v\<close> that it is set to \<open>v\<close>.
\<close>

record CloseApproach =
  designation :: string
  time :: datetime
  distance :: pyfloat
  velocity :: pyfloat
  neo :: "neo_ref option"
  name :: "string option option"
  diameter :: "pyfloat option"
  hazardous :: "bool option"

text \<open>
  \<open>NearEarthObject.__init__\<close> (models.py, lines 24-51). The designation is a string
  (so \<open>str(designation)\<close> is the designation itself) and the name is a string or
  \<open>None\<close>, as the docstring types them; diameter and hazard flag are any \<open>pyval\<close>.
  The extra keyword arguments \<open>**info\<close> are ignored by the source and left out.
\<close>

definition NearEarthObject_init ::
  "(string \<Rightarrow> pyfloat option) \<Rightarrow> string \<Rightarrow> string option \<Rightarrow> pyval \<Rightarrow> pyval
     \<Rightarrow> error + NearEarthObject" where
  "NearEarthObject_init parse desig nam diam haz =
     (let nam1 = (if nam = Some [] then None else nam);
          diam1 = (if diam = PStr [] then PFloat NaN else diam);
          haz1 = (if haz = PStr ''Y'' then PBool True
                  else if haz = PStr ''N'' then PBool False
                  else haz)
      in case py_float parse diam1 of
           Inl e \<Rightarrow> Inl e
         | Inr d \<Rightarrow>
             Inr \<lparr> NearEarthObject.designation = desig,
                   NearEarthObject.name = nam1,
                   NearEarthObject.diameter = d,
                   NearEarthObject.hazardous = py_bool haz1,
                   NearEarthObject.approaches = [] \<rparr>)"

text \<open>
  \<open>CloseApproach.__init__\<close> (models.py, lines 93-108). The helper \<open>cd_to_datetime\<close> is
  not part of the sources; it is the parameter \<open>cd_to_datetime\<close>.
\<close>

definition CloseApproach_init ::
  "('w \<Rightarrow> error + datetime) \<Rightarrow> (string \<Rightarrow> pyfloat option) \<Rightarrow> string \<Rightarrow> 'w \<Rightarrow> pyval \<Rightarrow> pyval
     \<Rightarrow> error + CloseApproach" where
  "CloseApproach_init cd_to_datetime parse desig cd_time dst vel =
     (case cd_to_datetime cd_time of
        Inl e \<Rightarrow> Inl e
      | Inr t \<Rightarrow>
          (case py_float parse dst of
             Inl e \<Rightarrow> Inl e
           | Inr d \<Rightarrow>
               (case py_float parse vel of
                  Inl e \<Rightarrow> Inl e
                | Inr v \<Rightarrow>
                    Inr \<lparr> CloseApproach.designation = desig,
                          CloseApproach.time = t,
                          CloseApproach.distance = d,
                          CloseApproach.velocity = v,
                          CloseApproach.neo = None,
                          CloseApproach.name = None,
                          CloseApproach.diameter = None,
                          CloseApproach.hazardous = None \<rparr>)))"

section \<open>database.py\<close>

text \<open>
  The objects are mutable and shared: an approach refers to its NEO and the NEO to its
  approaches. The store maps every reference to the object it denotes, one store per
  class; a Python reference always denotes an object, so the stores are total.
\<close>

record heap =
  neo_store :: "neo_ref \<Rightarrow> NearEarthObject"
  ca_store :: "ca_ref \<Rightarrow> CloseApproach"

text \<open>
  The attributes of a \<open>NEODatabase\<close>: \<open>_neos\<close>, \<open>_approaches\<close> (the two input
  collections, as lists of references) and the two dictionaries. The keys of
  \<open>neo_nam_dic\<close> are names, which may be \<open>None\<close>.
\<close>

record NEODatabase =
  db_neos :: "neo_ref list"
  db_approaches :: "ca_ref list"
  neo_des_dic :: "string \<rightharpoonup> neo_ref"
  neo_nam_dic :: "string option \<rightharpoonup> neo_ref"

text \<open>Lines 31-33: the designation index.\<close>

fun build_des_dic :: "heap \<Rightarrow> neo_ref list \<Rightarrow> (string \<rightharpoonup> neo_ref) \<Rightarrow> (string \<rightharpoonup> neo_ref)" where
  "build_des_dic h [] dic = dic"
| "build_des_dic h (n # ns) dic =
     build_des_dic h ns (dic(NearEarthObject.designation (neo_store h n) \<mapsto> n))"

text \<open>Lines 36-39: the name index, with the source's condition as it is written.\<close>

fun build_nam_dic ::
  "heap \<Rightarrow> neo_ref list \<Rightarrow> (string option \<rightharpoonup> neo_ref) \<Rightarrow> (string option \<rightharpoonup> neo_ref)" where
  "build_nam_dic h [] dic = dic"
| "build_nam_dic h (n # ns) dic =
     (let nm = NearEarthObject.name (neo_store h n)
      in if nm \<noteq> None \<or> nm \<noteq> Some []
         then build_nam_dic h ns (dic(nm \<mapsto> n))
         else build_nam_dic h ns dic)"

text \<open>
  Lines 43-46, the four assignments to the approach object \<open>ca\<close> once its NEO \<open>n\<close> is
  resolved: the reference, and the copies of the NEO's name, diameter and hazard flag.
\<close>

definition assign_link :: "heap \<Rightarrow> neo_ref \<Rightarrow> CloseApproach \<Rightarrow> CloseApproach" where
  "assign_link h n ca =
     ca\<lparr>CloseApproach.neo := Some n,
        CloseApproach.name := Some (NearEarthObject.name (neo_store h n)),
        CloseApproach.diameter := Some (NearEarthObject.diameter (neo_store h n)),
        CloseApproach.hazardous := Some (NearEarthObject.hazardous (neo_store h n))\<rparr>"

text \<open>
  Lines 42-46, one iteration: \<open>self.neo_des_dic[approach.designation]\<close> raises
  \<open>KeyError\<close> for a missing key; otherwise the approach object is updated in the store.
\<close>

definition link_approach :: "(string \<rightharpoonup> neo_ref) \<Rightarrow> ca_ref \<Rightarrow> heap \<Rightarrow> error + heap" where
  "link_approach dic a h =
     (case dic (CloseApproach.designation (ca_store h a)) of
        None \<Rightarrow> Inl (KeyError (CloseApproach.designation (ca_store h a)))
      | Some n \<Rightarrow> Inr (h\<lparr>ca_store := (ca_store h)(a := assign_link h n (ca_store h a))\<rparr>))"

fun link_approaches :: "(string \<rightharpoonup> neo_ref) \<Rightarrow> ca_ref list \<Rightarrow> heap \<Rightarrow> error + heap" where
  "link_approaches dic [] h = Inr h"
| "link_approaches dic (a # as) h =
     (case link_approach dic a h of
        Inl e \<Rightarrow> Inl e
      | Inr h' \<Rightarrow> link_approaches dic as h')"

text \<open>
  Line 50, the right-hand side: NEO \<open>n\<close> with its \<open>approaches\<close> replaced by the list
  comprehension over the approach collection \<open>cas\<close>.
\<close>

definition with_approaches :: "heap \<Rightarrow> ca_ref list \<Rightarrow> neo_ref \<Rightarrow> NearEarthObject" where
  "with_approaches h cas n =
     (neo_store h n)\<lparr>NearEarthObject.approaches :=
        filter (\<lambda>ca. CloseApproach.designation (ca_store h ca)
                       = NearEarthObject.designation (neo_store h n)) cas\<rparr>"

text \<open>Lines 49-50: the assignment to each NEO's \<open>approaches\<close>, in the store.\<close>

definition link_neo :: "ca_ref list \<Rightarrow> neo_ref \<Rightarrow> heap \<Rightarrow> heap" where
  "link_neo cas n h = h\<lparr>neo_store := (neo_store h)(n := with_approaches h cas n)\<rparr>"

fun link_neos :: "ca_ref list \<Rightarrow> neo_ref list \<Rightarrow> heap \<Rightarrow> heap" where
  "link_neos cas [] h = h"
| "link_neos cas (n # ns) h = link_neos cas ns (link_neo cas n h)"

text \<open>
  \<open>NEODatabase.__init__\<close> (lines 25-50): the store after construction and the new
  database, or the exception raised.
\<close>

definition NEODatabase_init ::
  "heap \<Rightarrow> neo_ref list \<Rightarrow> ca_ref list \<Rightarrow> error + (heap \<times> NEODatabase)" where
  "NEODatabase_init h neos cas =
     (let des = build_des_dic h neos Map.empty;
          nam = build_nam_dic h neos Map.empty
      in case link_approaches des cas h of
           Inl e \<Rightarrow> Inl e
         | Inr h1 \<Rightarrow>
             Inr (link_neos cas neos h1,
                  \<lparr> db_neos = neos, db_approaches = cas,
                    neo_des_dic = des, neo_nam_dic = nam \<rparr>))"

text \<open>Lines 53-66 and 68-85: the lookups; \<open>None\<close> is Python's \<open>None\<close>.\<close>

definition get_neo_by_designation :: "NEODatabase \<Rightarrow> string \<Rightarrow> neo_ref option" where
  "get_neo_by_designation db desig = neo_des_dic db desig"

definition get_neo_by_name :: "NEODatabase \<Rightarrow> string option \<Rightarrow> neo_ref option" where
  "get_neo_by_name db nam =
     (if neo_nam_dic db nam \<noteq> None then neo_nam_dic db nam else None)"

section \<open>The query\<close>

text \<open>
  The module \<open>filters\<close> is imported by database.py and is not part of the sources. The
  query only builds a filter from two values and calls it on an approach, so the five
  filter classes are a parameter: \<open>f lo hi h a\<close> is the truth value of
  \<open>f(lo, hi)(a)\<close> in store \<open>h\<close>, or the exception raised. The values of the filter
  mapping are passed on as they are; their type \<open>'v\<close> is left open.
\<close>

type_synonym 'v filter_class = "'v \<Rightarrow> 'v \<Rightarrow> heap \<Rightarrow> ca_ref \<Rightarrow> error + bool"

record 'v filt =
  DateFilter :: "'v filter_class"
  DistanceFilter :: "'v filter_class"
  VelocityFilter :: "'v filter_class"
  DiameterFilter :: "'v filter_class"
  HazardousFilter :: "'v filter_class"

text \<open>
  \<open>filt.X(filters[k][0], filters[k][1])(approach)\<close>, for the value \<open>v = filters[k]\<close>:
  both subscripts are evaluated before the call, and a subscript out of range raises
  \<open>IndexError\<close>.
\<close>

definition run_filter :: "'v filter_class \<Rightarrow> 'v list \<Rightarrow> heap \<Rightarrow> ca_ref \<Rightarrow> error + bool" where
  "run_filter f v h a =
     (case v of
        [] \<Rightarrow> Inl IndexError
      | [x] \<Rightarrow> Inl IndexError
      | x # y # rest \<Rightarrow> f x y h a)"

text \<open>
  Lines 106-133 are ten statements of one shape, \<open>if k in filters.keys():
  filter_results.append(...)\<close>. The table lists their keys and filter classes in the
  order of the source; \<open>filter_results\<close> runs down the table.
\<close>

definition filter_table :: "'v filt \<Rightarrow> (string \<times> 'v filter_class) list" where
  "filter_table F =
     [ (''date'', DateFilter F),
       (''start_date'', DateFilter F),
       (''end_date'', DateFilter F),
       (''distance_min'', DistanceFilter F),
       (''distance_max'', DistanceFilter F),
       (''velocity_min'', VelocityFilter F),
       (''velocity_max'', VelocityFilter F),
       (''diameter_min'', DiameterFilter F),
       (''diameter_max'', DiameterFilter F),
       (''hazardous'', HazardousFilter F) ]"

fun filter_results ::
  "(string \<times> 'v filter_class) list \<Rightarrow> (string \<rightharpoonup> 'v list) \<Rightarrow> heap \<Rightarrow> ca_ref \<Rightarrow> bool list
     \<Rightarrow> error + bool list" where
  "filter_results [] filters h a results = Inr results"
| "filter_results ((k, f) # tbl) filters h a results =
     (case filters k of
        None \<Rightarrow> filter_results tbl filters h a results
      | Some v \<Rightarrow>
          (case run_filter f v h a of
             Inl e \<Rightarrow> Inl e
           | Inr b \<Rightarrow> filter_results tbl filters h a (results @ [b])))"

text \<open>
  The generator of lines 102-136, run to its end: the approaches yielded, in order, and
  the exception that ended the scan, if one did.
\<close>

fun query_scan ::
  "'v filt \<Rightarrow> heap \<Rightarrow> (string \<rightharpoonup> 'v list) \<Rightarrow> ca_ref list \<Rightarrow> ca_ref list \<times> error option" where
  "query_scan F h filters [] = ([], None)"
| "query_scan F h filters (a # as) =
     (case filter_results (filter_table F) filters h a [] of
        Inl e \<Rightarrow> ([], Some e)
      | Inr results \<Rightarrow>
          (let (ys, e) = query_scan F h filters as
           in (if list_all (\<lambda>b. b) results then a # ys else ys, e)))"

definition query ::
  "'v filt \<Rightarrow> heap \<Rightarrow> NEODatabase \<Rightarrow> (string \<rightharpoonup> 'v list) \<Rightarrow> ca_ref list \<times> error option" where
  "query F h db filters = query_scan F h filters (db_approaches db)"

text \<open>The ten keys the specification lists as recognised.\<close>

definition recognized_keys :: "string set" where
  "recognized_keys =
     {''date'', ''start_date'', ''end_date'', ''distance_min'', ''distance_max'',
      ''velocity_min'', ''velocity_max'', ''diameter_min'', ''diameter_max'',
      ''hazardous''}"

section \<open>The filters, from the specification\<close>

text \<open>Python's \<open><=\<close> on floats (false when either side is not-a-number) and on dates.\<close>

fun float_le :: "pyfloat \<Rightarrow> pyfloat \<Rightarrow> bool" where
  "float_le NaN y = False"
| "float_le x NaN = False"
| "float_le NegInf y = True"
| "float_le x PosInf = True"
| "float_le (Fin x) (Fin y) = (x \<le> y)"
| "float_le x y = False"

fun date_le :: "date \<Rightarrow> date \<Rightarrow> bool" where
  "date_le (Date y1 m1 d1) (Date y2 m2 d2) =
     (y1 < y2 \<or> (y1 = y2 \<and> (m1 < m2 \<or> (m1 = m2 \<and> d1 \<le> d2))))"

text \<open>
  Modelled from the spec: the module \<open>filters\<close> (classes \<open>DateFilter\<close>,
  \<open>DistanceFilter\<close>, \<open>VelocityFilter\<close>, \<open>DiameterFilter\<close>, \<open>HazardousFilter\<close>) is missing
  from the sources. Section 4.3: each predicate takes a lower and an upper bound,
  either of which may be open (\<open>None\<close>), and is true iff the attribute lies within
  the bounds, inclusive.
\<close>

definition in_bounds :: "('a \<Rightarrow> 'a \<Rightarrow> bool) \<Rightarrow> 'a option \<Rightarrow> 'a option \<Rightarrow> 'a \<Rightarrow> bool" where
  "in_bounds le lo hi x =
     ((case lo of None \<Rightarrow> True | Some l \<Rightarrow> le l x)
      \<and> (case hi of None \<Rightarrow> True | Some u \<Rightarrow> le x u))"

text \<open>
  Modelled from the spec: a bound of the missing comparison filters is open or a float,
  a bound of the missing date filter is open or a date. The spec gives no other shape;
  any other value is taken to raise \<open>TypeError\<close>.
\<close>

fun float_bound :: "pyval \<Rightarrow> error + pyfloat option" where
  "float_bound PNone = Inr None"
| "float_bound (PFloat f) = Inr (Some f)"
| "float_bound v = Inl TypeError"

fun date_bound :: "pyval \<Rightarrow> error + date option" where
  "date_bound PNone = Inr None"
| "date_bound (PDate d) = Inr (Some d)"
| "date_bound v = Inl TypeError"

text \<open>
  Modelled from the spec: the missing \<open>DistanceFilter\<close>, \<open>VelocityFilter\<close> and
  \<open>DiameterFilter\<close> share one bounded comparator over a float attribute of the
  approach; an attribute that is not set raises \<open>AttributeError\<close>.
\<close>

definition spec_float_filter ::
  "(CloseApproach \<Rightarrow> pyfloat option) \<Rightarrow> pyval filter_class" where
  "spec_float_filter attr lo hi h a =
     (case float_bound lo of
        Inl e \<Rightarrow> Inl e
      | Inr l \<Rightarrow>
          (case float_bound hi of
             Inl e \<Rightarrow> Inl e
           | Inr u \<Rightarrow>
               (case attr (ca_store h a) of
                  None \<Rightarrow> Inl AttributeError
                | Some x \<Rightarrow> Inr (in_bounds float_le l u x))))"

text \<open>
  Modelled from the spec: the missing \<open>DateFilter\<close> compares the date portion of the
  approach time with an inclusive window of dates.
\<close>

definition spec_DateFilter :: "pyval filter_class" where
  "spec_DateFilter lo hi h a =
     (case date_bound lo of
        Inl e \<Rightarrow> Inl e
      | Inr l \<Rightarrow>
          (case date_bound hi of
             Inl e \<Rightarrow> Inl e
           | Inr u \<Rightarrow> Inr (in_bounds date_le l u (dt_date (CloseApproach.time (ca_store h a))))))"

text \<open>
  Modelled from the spec: the missing \<open>HazardousFilter\<close> tests the hazard flag copied
  onto the approach for equality with its first value; the second is not used.
\<close>

definition spec_HazardousFilter :: "pyval filter_class" where
  "spec_HazardousFilter lo hi h a =
     (case CloseApproach.hazardous (ca_store h a) of
        None \<Rightarrow> Inl AttributeError
      | Some b \<Rightarrow> Inr (lo = PBool b))"

text \<open>Modelled from the spec: the missing module \<open>filters\<close> as a whole.\<close>

definition spec_filt :: "pyval filt" where
  "spec_filt =
     \<lparr> DateFilter = spec_DateFilter,
       DistanceFilter = spec_float_filter (\<lambda>ca. Some (CloseApproach.distance ca)),
       VelocityFilter = spec_float_filter (\<lambda>ca. Some (CloseApproach.velocity ca)),
       DiameterFilter = spec_float_filter CloseApproach.diameter,
       HazardousFilter = spec_HazardousFilter \<rparr>"

section \<open>The scenario of the specification\<close>

text \<open>
  Section 8: NEO A (designation "2000 AB", name "Apophis", diameter 0.5, hazardous) and
  NEO B (designation "2001 XY", no name, unknown diameter, not hazardous), with one
  approach each, as their constructors leave them. NEO A is at reference 0 and NEO B at
  reference 1 of the NEO store, their approaches at references 0 and 1 of the approach
  store.
\<close>

definition neo_A :: NearEarthObject where
  "neo_A = \<lparr> NearEarthObject.designation = ''2000 AB'',
             NearEarthObject.name = Some ''Apophis'',
             NearEarthObject.diameter = Fin (1 / 2),
             NearEarthObject.hazardous = True,
             NearEarthObject.approaches = [] \<rparr>"

definition neo_B :: NearEarthObject where
  "neo_B = \<lparr> NearEarthObject.designation = ''2001 XY'',
             NearEarthObject.name = None,
             NearEarthObject.diameter = NaN,
             NearEarthObject.hazardous = False,
             NearEarthObject.approaches = [] \<rparr>"

definition ca_A :: CloseApproach where
  "ca_A = \<lparr> CloseApproach.designation = ''2000 AB'',
            CloseApproach.time = Datetime (Date 2029 4 13) 21 46,
            CloseApproach.distance = Fin (1 / 10),
            CloseApproach.velocity = Fin 5,
            CloseApproach.neo = None,
            CloseApproach.name = None,
            CloseApproach.diameter = None,
            CloseApproach.hazardous = None \<rparr>"

definition ca_B :: CloseApproach where
  "ca_B = \<lparr> CloseApproach.designation = ''2001 XY'',
            CloseApproach.time = Datetime (Date 2030 1 2) 3 4,
            CloseApproach.distance = Fin (1 / 5),
            CloseApproach.velocity = Fin 6,
            CloseApproach.neo = None,
            CloseApproach.name = None,
            CloseApproach.diameter = None,
            CloseApproach.hazardous = None \<rparr>"

definition scenario_heap :: heap where
  "scenario_heap =
     \<lparr> neo_store = (\<lambda>r. if r = 0 then neo_A else neo_B),
       ca_store = (\<lambda>r. if r = 0 then ca_A else ca_B) \<rparr>"

text \<open>The store and the database after \<open>NEODatabase([A, B], [approach A, approach B])\<close>.\<close>

definition scenario_linked :: heap where
  "scenario_linked =
     (case NEODatabase_init scenario_heap [0, 1] [0, 1] of
        Inl e \<Rightarrow> scenario_heap
      | Inr (h, db) \<Rightarrow> h)"

definition scenario_db :: NEODatabase where
  "scenario_db =
     (case NEODatabase_init scenario_heap [0, 1] [0, 1] of
        Inl e \<Rightarrow> \<lparr> db_neos = [], db_approaches = [],
                   neo_des_dic = Map.empty, neo_nam_dic = Map.empty \<rparr>
      | Inr (h, db) \<Rightarrow> db)"

text \<open>
  Two NEO objects with the same designation "2000 AB" (the second named "Twin") and one
  approach of that designation.
\<close>

definition twin_heap :: heap where
  "twin_heap =
     \<lparr> neo_store = (\<lambda>r. if r = 0 then neo_A
                          else neo_A\<lparr>NearEarthObject.name := Some ''Twin''\<rparr>),
       ca_store = (\<lambda>r. ca_A) \<rparr>"

section \<open>Normalisation in the NEO constructor\<close>

text \<open>
  C7. \<open>NearEarthObject\<close> construction normalises its inputs: whenever it returns an
  object, hazard flag \<open>'Y'\<close> gives \<open>hazardous = True\<close>, \<open>'N'\<close> gives
  \<open>hazardous = False\<close> and an empty-string name gives the name \<open>None\<close>; with an
  empty-string diameter construction always returns an object, whose diameter is
  not-a-number.
\<close>

theorem NearEarthObject_init_normalizes:
  "(NearEarthObject_init parse desig nam diam (PStr ''Y'') = Inr obj
      \<longrightarrow> NearEarthObject.hazardous obj = True)
   \<and> (NearEarthObject_init parse desig nam diam (PStr ''N'') = Inr obj
      \<longrightarrow> NearEarthObject.hazardous obj = False)
   \<and> (NearEarthObject_init parse desig (Some []) diam haz = Inr obj
      \<longrightarrow> NearEarthObject.name obj = None)
   \<and> (\<exists>obj'. NearEarthObject_init parse desig nam (PStr []) haz = Inr obj'
         \<and> NearEarthObject.diameter obj' = NaN)"
  by (auto simp: NearEarthObject_init_def Let_def split: sum.splits)

theorem NearEarthObject_init_normalizes_witness:
  "NearEarthObject_init (\<lambda>s. None) ''2000 AB'' (Some []) (PStr []) (PStr ''Y'')
     = Inr \<lparr> NearEarthObject.designation = ''2000 AB'', NearEarthObject.name = None,
             NearEarthObject.diameter = NaN, NearEarthObject.hazardous = True,
             NearEarthObject.approaches = [] \<rparr>
   \<and> NearEarthObject_init (\<lambda>s. None) ''2000 AB'' (Some []) (PStr []) (PStr ''N'')
     = Inr \<lparr> NearEarthObject.designation = ''2000 AB'', NearEarthObject.name = None,
             NearEarthObject.diameter = NaN, NearEarthObject.hazardous = False,
             NearEarthObject.approaches = [] \<rparr>"
  using NearEarthObject_init_normalizes
    [of "\<lambda>s. None" "''2000 AB''" "Some []" "PStr []"
        "\<lparr> NearEarthObject.designation = ''2000 AB'', NearEarthObject.name = None,
           NearEarthObject.diameter = NaN, NearEarthObject.hazardous = True,
           NearEarthObject.approaches = [] \<rparr>" "PStr ''Y''"]
  by (simp add: NearEarthObject_init_def)

section \<open>The linking passes\<close>

lemma assign_link_designation:
  "CloseApproach.designation (assign_link h n ca) = CloseApproach.designation ca"
  by (simp add: assign_link_def)

lemma assign_link_idem:
  "assign_link h n (assign_link h n ca) = assign_link h n ca"
  by (simp add: assign_link_def)

lemma assign_link_cong:
  "neo_store h' = neo_store h \<Longrightarrow> assign_link h' n ca = assign_link h n ca"
  by (simp add: assign_link_def)

lemma link_approach_Inr:
  assumes "link_approach dic a h = Inr h'"
  shows "\<exists>n. dic (CloseApproach.designation (ca_store h a)) = Some n
           \<and> h' = h\<lparr>ca_store := (ca_store h)(a := assign_link h n (ca_store h a))\<rparr>"
  using assms by (auto simp: link_approach_def split: option.splits)

lemma link_approach_Inl:
  assumes "link_approach dic a h = Inl e"
  shows "dic (CloseApproach.designation (ca_store h a)) = None
           \<and> e = KeyError (CloseApproach.designation (ca_store h a))"
  using assms by (auto simp: link_approach_def split: option.splits)

lemma link_approach_neo_store:
  "link_approach dic a h = Inr h' \<Longrightarrow> neo_store h' = neo_store h"
  by (auto dest: link_approach_Inr)

lemma link_approach_designation:
  "link_approach dic a h = Inr h' \<Longrightarrow>
     CloseApproach.designation (ca_store h' b) = CloseApproach.designation (ca_store h b)"
  by (auto dest!: link_approach_Inr simp: assign_link_designation)

lemma link_approaches_neo_store:
  "link_approaches dic as h = Inr h' \<Longrightarrow> neo_store h' = neo_store h"
proof (induction as arbitrary: h)
  case Nil
  then show ?case by simp
next
  case (Cons a as)
  then obtain h1 where 1: "link_approach dic a h = Inr h1"
    and 2: "link_approaches dic as h1 = Inr h'"
    by (auto split: sum.splits)
  from Cons.IH [OF 2] link_approach_neo_store [OF 1] show ?case by simp
qed

lemma link_approaches_designation:
  "link_approaches dic as h = Inr h' \<Longrightarrow>
     CloseApproach.designation (ca_store h' b) = CloseApproach.designation (ca_store h b)"
proof (induction as arbitrary: h)
  case Nil
  then show ?case by simp
next
  case (Cons a as)
  then obtain h1 where 1: "link_approach dic a h = Inr h1"
    and 2: "link_approaches dic as h1 = Inr h'"
    by (auto split: sum.splits)
  from Cons.IH [OF 2] link_approach_designation [OF 1] show ?case by simp
qed

lemma link_approaches_other:
  "link_approaches dic as h = Inr h' \<Longrightarrow> b \<notin> set as \<Longrightarrow> ca_store h' b = ca_store h b"
proof (induction as arbitrary: h)
  case Nil
  then show ?case by simp
next
  case (Cons a as)
  then obtain h1 where 1: "link_approach dic a h = Inr h1"
    and 2: "link_approaches dic as h1 = Inr h'"
    by (auto split: sum.splits)
  from Cons.prems have "b \<noteq> a" "b \<notin> set as" by auto
  with Cons.IH [OF 2] link_approach_Inr [OF 1] show ?case by auto
qed

lemma link_approaches_linked:
  "link_approaches dic as h = Inr h' \<Longrightarrow> b \<in> set as \<Longrightarrow>
     \<exists>n. dic (CloseApproach.designation (ca_store h b)) = Some n
          \<and> ca_store h' b = assign_link h n (ca_store h b)"
proof (induction as arbitrary: h)
  case Nil
  then show ?case by simp
next
  case (Cons a as)
  then obtain h1 where 1: "link_approach dic a h = Inr h1"
    and 2: "link_approaches dic as h1 = Inr h'"
    by (auto split: sum.splits)
  from link_approach_Inr [OF 1] obtain m where
    m: "dic (CloseApproach.designation (ca_store h a)) = Some m"
    and h1: "h1 = h\<lparr>ca_store := (ca_store h)(a := assign_link h m (ca_store h a))\<rparr>"
    by blast
  have ns: "neo_store h1 = neo_store h" using h1 by simp
  show ?case
  proof (cases "b \<in> set as")
    case True
    from Cons.IH [OF 2 True] obtain n where
      n: "dic (CloseApproach.designation (ca_store h1 b)) = Some n"
      and eq: "ca_store h' b = assign_link h1 n (ca_store h1 b)"
      by blast
    have d: "CloseApproach.designation (ca_store h1 b) = CloseApproach.designation (ca_store h b)"
      by (rule link_approach_designation [OF 1])
    show ?thesis
    proof (cases "b = a")
      case True
      with n d m have "n = m" by simp
      with True eq h1 n d show ?thesis
        by (simp add: assign_link_def)
    next
      case False
      with eq h1 n d show ?thesis
        by (simp add: assign_link_def)
    qed
  next
    case False
    with Cons.prems have "b = a" by simp
    with link_approaches_other [OF 2 False] h1 m show ?thesis by simp
  qed
qed

lemma link_approaches_Inl:
  "link_approaches dic as h = Inl e \<Longrightarrow>
     \<exists>a\<in>set as. dic (CloseApproach.designation (ca_store h a)) = None
        \<and> e = KeyError (CloseApproach.designation (ca_store h a))"
proof (induction as arbitrary: h)
  case Nil
  then show ?case by simp
next
  case (Cons a as)
  show ?case
  proof (cases "link_approach dic a h")
    case (Inl e')
    with Cons.prems have "e' = e" by simp
    with link_approach_Inl [OF Inl] show ?thesis by simp
  next
    case (Inr h1)
    with Cons.prems have "link_approaches dic as h1 = Inl e" by simp
    from Cons.IH [OF this] link_approach_designation [OF Inr] show ?thesis by simp
  qed
qed

lemma link_neo_ca_store: "ca_store (link_neo cas n h) = ca_store h"
  by (simp add: link_neo_def)

lemma link_neos_ca_store: "ca_store (link_neos cas ns h) = ca_store h"
  by (induction ns arbitrary: h) (simp_all add: link_neo_ca_store)

lemma link_neos_neo_store:
  "neo_store (link_neos cas ns h) m =
     (if m \<in> set ns then with_approaches h cas m else neo_store h m)"
proof (induction ns arbitrary: h)
  case Nil
  then show ?case by simp
next
  case (Cons n ns)
  have "with_approaches (link_neo cas n h) cas m = with_approaches h cas m"
    by (simp add: with_approaches_def link_neo_def)
  moreover have "neo_store (link_neo cas n h) m
      = (if m = n then with_approaches h cas m else neo_store h m)"
    by (simp add: with_approaches_def link_neo_def)
  ultimately show ?case using Cons.IH [of "link_neo cas n h"] by (cases "m = n") simp_all
qed

section \<open>The indices and the constructor\<close>

lemma build_des_dic_append:
  "build_des_dic h (xs @ ys) dic = build_des_dic h ys (build_des_dic h xs dic)"
  by (induction xs arbitrary: dic) simp_all

lemma build_des_dic_absent:
  "\<forall>n\<in>set ns. NearEarthObject.designation (neo_store h n) \<noteq> d \<Longrightarrow>
     build_des_dic h ns dic d = dic d"
  by (induction ns arbitrary: dic) auto

lemma build_des_dic_Some:
  "build_des_dic h ns dic d = Some n \<Longrightarrow>
     (n \<in> set ns \<and> NearEarthObject.designation (neo_store h n) = d) \<or> dic d = Some n"
proof (induction ns arbitrary: dic)
  case Nil
  then show ?case by simp
next
  case (Cons m ns)
  from Cons.prems
  have "build_des_dic h ns (dic(NearEarthObject.designation (neo_store h m) \<mapsto> m)) d = Some n"
    by simp
  from Cons.IH [OF this] show ?case
    by (auto split: if_splits)
qed

lemma build_des_dic_present:
  "\<exists>n\<in>set ns. NearEarthObject.designation (neo_store h n) = d \<Longrightarrow>
     build_des_dic h ns dic d \<noteq> None"
proof (induction ns arbitrary: dic)
  case Nil
  then show ?case by simp
next
  case (Cons m ns)
  show ?case
  proof (cases "\<exists>n\<in>set ns. NearEarthObject.designation (neo_store h n) = d")
    case True
    from Cons.IH [OF True] show ?thesis by simp
  next
    case False
    with Cons.prems have "NearEarthObject.designation (neo_store h m) = d" by auto
    moreover from False
    have "\<forall>n\<in>set ns. NearEarthObject.designation (neo_store h n) \<noteq> d" by blast
    ultimately show ?thesis by (simp add: build_des_dic_absent)
  qed
qed

lemma build_des_dic_cong:
  "\<forall>n\<in>set ns. NearEarthObject.designation (neo_store h' n)
      = NearEarthObject.designation (neo_store h n) \<Longrightarrow>
   build_des_dic h' ns dic = build_des_dic h ns dic"
  by (induction ns arbitrary: dic) auto

lemma build_nam_dic_cong:
  "\<forall>n\<in>set ns. NearEarthObject.name (neo_store h' n) = NearEarthObject.name (neo_store h n) \<Longrightarrow>
   build_nam_dic h' ns dic = build_nam_dic h ns dic"
  by (induction ns arbitrary: dic) (auto simp: Let_def)

lemma NEODatabase_init_Inr:
  assumes "NEODatabase_init h neos cas = Inr (h', db)"
  shows "\<exists>h1. link_approaches (build_des_dic h neos Map.empty) cas h = Inr h1
            \<and> h' = link_neos cas neos h1
            \<and> db = \<lparr> db_neos = neos, db_approaches = cas,
                     neo_des_dic = build_des_dic h neos Map.empty,
                     neo_nam_dic = build_nam_dic h neos Map.empty \<rparr>"
  using assms by (auto simp: NEODatabase_init_def Let_def split: sum.splits)

lemma NEODatabase_init_Inl:
  assumes "NEODatabase_init h neos cas = Inl e"
  shows "link_approaches (build_des_dic h neos Map.empty) cas h = Inl e"
  using assms by (auto simp: NEODatabase_init_def Let_def split: sum.splits)

lemma with_approaches_fields:
  "NearEarthObject.designation (with_approaches h cas m) = NearEarthObject.designation (neo_store h m)"
  "NearEarthObject.name (with_approaches h cas m) = NearEarthObject.name (neo_store h m)"
  "NearEarthObject.diameter (with_approaches h cas m) = NearEarthObject.diameter (neo_store h m)"
  "NearEarthObject.hazardous (with_approaches h cas m) = NearEarthObject.hazardous (neo_store h m)"
  by (simp_all add: with_approaches_def)

lemma link_neos_fields:
  "NearEarthObject.designation (neo_store (link_neos cas ns h) m) = NearEarthObject.designation (neo_store h m)"
  "NearEarthObject.name (neo_store (link_neos cas ns h) m) = NearEarthObject.name (neo_store h m)"
  "NearEarthObject.diameter (neo_store (link_neos cas ns h) m) = NearEarthObject.diameter (neo_store h m)"
  "NearEarthObject.hazardous (neo_store (link_neos cas ns h) m) = NearEarthObject.hazardous (neo_store h m)"
  by (simp_all add: link_neos_neo_store with_approaches_fields)

lemma scenario_constructed:
  "NEODatabase_init scenario_heap [0, 1] [0, 1] = Inr (scenario_linked, scenario_db)"
  by (simp add: scenario_linked_def scenario_db_def NEODatabase_init_def Let_def link_approach_def
      scenario_heap_def neo_A_def neo_B_def ca_A_def ca_B_def split: sum.splits)

lemma link_approaches_total:
  "\<forall>a\<in>set as. dic (CloseApproach.designation (ca_store h a)) \<noteq> None \<Longrightarrow>
     \<exists>h'. link_approaches dic as h = Inr h'"
proof (cases "link_approaches dic as h")
  case (Inl e)
  assume "\<forall>a\<in>set as. dic (CloseApproach.designation (ca_store h a)) \<noteq> None"
  with link_approaches_Inl [OF Inl] show ?thesis by blast
next
  case (Inr h')
  then show ?thesis by blast
qed

lemma NEODatabase_init_total:
  assumes "\<forall>a\<in>set cas. \<exists>n\<in>set neos.
             NearEarthObject.designation (neo_store h n) = CloseApproach.designation (ca_store h a)"
  shows "\<exists>h'. NEODatabase_init h neos cas
           = Inr (h', \<lparr> db_neos = neos, db_approaches = cas,
                        neo_des_dic = build_des_dic h neos Map.empty,
                        neo_nam_dic = build_nam_dic h neos Map.empty \<rparr>)"
proof -
  have "\<forall>a\<in>set cas. build_des_dic h neos Map.empty (CloseApproach.designation (ca_store h a)) \<noteq> None"
    using assms by (intro ballI build_des_dic_present) blast
  from link_approaches_total [OF this] obtain h1 where
    "link_approaches (build_des_dic h neos Map.empty) cas h = Inr h1" by blast
  then show ?thesis by (simp add: NEODatabase_init_def Let_def)
qed

section \<open>Referential integrity and linking\<close>

text \<open>
  C3. Construction over collections in which some close approach has a designation that
  no NEO of the collection has raises: the result is a \<open>KeyError\<close> for the designation
  of such an approach, never a database.
\<close>

theorem unresolved_approach_aborts_construction:
  assumes "a \<in> set cas"
    and "\<forall>n\<in>set neos. NearEarthObject.designation (neo_store h n)
            \<noteq> CloseApproach.designation (ca_store h a)"
  shows "\<exists>b\<in>set cas.
           (\<forall>n\<in>set neos. NearEarthObject.designation (neo_store h n)
              \<noteq> CloseApproach.designation (ca_store h b))
           \<and> NEODatabase_init h neos cas = Inl (KeyError (CloseApproach.designation (ca_store h b)))"
proof (cases "NEODatabase_init h neos cas")
  case (Inl e)
  from link_approaches_Inl [OF NEODatabase_init_Inl [OF Inl]] obtain b where
    b: "b \<in> set cas"
      "build_des_dic h neos Map.empty (CloseApproach.designation (ca_store h b)) = None"
      "e = KeyError (CloseApproach.designation (ca_store h b))"
    by blast
  have "\<forall>n\<in>set neos. NearEarthObject.designation (neo_store h n)
          \<noteq> CloseApproach.designation (ca_store h b)"
  proof
    fix n assume "n \<in> set neos"
    with build_des_dic_present [of neos h "CloseApproach.designation (ca_store h b)" Map.empty] b(2)
    show "NearEarthObject.designation (neo_store h n) \<noteq> CloseApproach.designation (ca_store h b)"
      by blast
  qed
  with b Inl show ?thesis by blast
next
  case (Inr r)
  obtain h' db where "r = (h', db)" by (cases r)
  with Inr NEODatabase_init_Inr [of h neos cas h' db] obtain h1 where
    "link_approaches (build_des_dic h neos Map.empty) cas h = Inr h1" by blast
  from link_approaches_linked [OF this assms(1)] obtain n where
    "build_des_dic h neos Map.empty (CloseApproach.designation (ca_store h a)) = Some n"
    by blast
  from build_des_dic_Some [OF this] assms(2) show ?thesis by auto
qed

theorem unresolved_approach_aborts_construction_witness:
  "NEODatabase_init scenario_heap [0] [0, 1] = Inl (KeyError ''2001 XY'')"
  using unresolved_approach_aborts_construction [of 1 "[0, 1]" "[0]" scenario_heap]
  by (auto simp: scenario_heap_def neo_A_def ca_A_def ca_B_def)

text \<open>
  C4. When construction succeeds, every close approach of the collection refers to a NEO
  of the collection (\<open>neo\<close> is not \<open>None\<close>), has that NEO's designation, and its
  \<open>name\<close>, \<open>diameter\<close> and \<open>hazardous\<close> attributes hold the values of that NEO's
  fields. Equality of diameters is identity of the float copied, so it holds for an
  unknown (not-a-number) diameter too.
\<close>

theorem approach_linked_to_its_neo:
  assumes "NEODatabase_init h neos cas = Inr (h', db)" and "a \<in> set cas"
  shows "\<exists>n. CloseApproach.neo (ca_store h' a) = Some n
           \<and> n \<in> set neos
           \<and> CloseApproach.designation (ca_store h' a) = NearEarthObject.designation (neo_store h' n)
           \<and> CloseApproach.name (ca_store h' a) = Some (NearEarthObject.name (neo_store h' n))
           \<and> CloseApproach.diameter (ca_store h' a) = Some (NearEarthObject.diameter (neo_store h' n))
           \<and> CloseApproach.hazardous (ca_store h' a) = Some (NearEarthObject.hazardous (neo_store h' n))"
proof -
  from NEODatabase_init_Inr [OF assms(1)] obtain h1 where
    h1: "link_approaches (build_des_dic h neos Map.empty) cas h = Inr h1"
    and h': "h' = link_neos cas neos h1"
    by blast
  from link_approaches_linked [OF h1 assms(2)] obtain n where
    n: "build_des_dic h neos Map.empty (CloseApproach.designation (ca_store h a)) = Some n"
    and ca: "ca_store h1 a = assign_link h n (ca_store h a)"
    by blast
  from build_des_dic_Some [OF n] have mem: "n \<in> set neos"
    and des: "NearEarthObject.designation (neo_store h n) = CloseApproach.designation (ca_store h a)"
    by simp_all
  have st: "neo_store h1 = neo_store h" by (rule link_approaches_neo_store [OF h1])
  have "ca_store h' a = assign_link h n (ca_store h a)"
    using h' ca by (simp add: link_neos_ca_store)
  then show ?thesis using mem des h' st
    by (simp add: link_neos_fields assign_link_def)
qed

theorem approach_linked_to_its_neo_witness:
  "CloseApproach.neo (ca_store scenario_linked 0) = Some 0
   \<and> CloseApproach.designation (ca_store scenario_linked 0) = ''2000 AB''
   \<and> NearEarthObject.designation (neo_store scenario_linked 0) = ''2000 AB''
   \<and> CloseApproach.name (ca_store scenario_linked 0) = Some (Some ''Apophis'')
   \<and> CloseApproach.diameter (ca_store scenario_linked 0) = Some (Fin (1 / 2))
   \<and> CloseApproach.hazardous (ca_store scenario_linked 0) = Some True"
  using approach_linked_to_its_neo [OF scenario_constructed, of 0]
  by (simp add: scenario_linked_def NEODatabase_init_def Let_def link_approach_def
      link_neo_def with_approaches_def scenario_heap_def neo_A_def neo_B_def ca_A_def ca_B_def assign_link_def)

text \<open>
  C5. When construction succeeds, the \<open>approaches\<close> of every NEO of the collection is
  the input approach collection filtered by "designation equals the NEO's designation":
  every matching approach, no other, in the input order. Construction changes no
  designation, so the filter reads the same before and after.
\<close>

theorem neo_approaches_matching_subsequence:
  assumes "NEODatabase_init h neos cas = Inr (h', db)" and "n \<in> set neos"
  shows "NearEarthObject.approaches (neo_store h' n)
           = filter (\<lambda>a. CloseApproach.designation (ca_store h' a)
                            = NearEarthObject.designation (neo_store h' n)) cas
         \<and> (\<forall>a. CloseApproach.designation (ca_store h' a) = CloseApproach.designation (ca_store h a))
         \<and> NearEarthObject.designation (neo_store h' n) = NearEarthObject.designation (neo_store h n)"
proof -
  from NEODatabase_init_Inr [OF assms(1)] obtain h1 where
    h1: "link_approaches (build_des_dic h neos Map.empty) cas h = Inr h1"
    and h': "h' = link_neos cas neos h1"
    by blast
  have st: "neo_store h1 = neo_store h" by (rule link_approaches_neo_store [OF h1])
  have cd: "\<And>a. CloseApproach.designation (ca_store h1 a) = CloseApproach.designation (ca_store h a)"
    by (rule link_approaches_designation [OF h1])
  show ?thesis using h' assms(2) st cd
    by (simp add: link_neos_neo_store link_neos_ca_store with_approaches_def)
qed

theorem neo_approaches_matching_subsequence_witness:
  "NearEarthObject.approaches (neo_store scenario_linked 0) = [0]
   \<and> NearEarthObject.approaches (neo_store scenario_linked 1) = [1]"
  using neo_approaches_matching_subsequence [OF scenario_constructed, of 0]
    neo_approaches_matching_subsequence [OF scenario_constructed, of 1]
  by (simp add: scenario_linked_def NEODatabase_init_def Let_def link_approach_def
      link_neo_def with_approaches_def scenario_heap_def neo_A_def neo_B_def ca_A_def ca_B_def assign_link_def)

section \<open>Duplicate designations\<close>

text \<open>
  C8. Let the NEOs at positions \<open>i < j\<close> of the input have the same designation \<open>d\<close>,
  \<open>j\<close> being the last position with it, and let every approach resolve (the loader
  contract, without which construction raises for that reason, see C3). Then
  construction returns a database, the duplicate is not signalled, and
  \<open>get_neo_by_designation\<close> of \<open>d\<close> is the later NEO.
\<close>

theorem duplicate_designation_later_neo_wins:
  assumes "i < j" and "j < length neos"
    and "NearEarthObject.designation (neo_store h (neos ! i)) = d"
    and "NearEarthObject.designation (neo_store h (neos ! j)) = d"
    and "\<forall>k. j < k \<and> k < length neos \<longrightarrow> NearEarthObject.designation (neo_store h (neos ! k)) \<noteq> d"
    and "\<forall>a\<in>set cas. \<exists>n\<in>set neos.
           NearEarthObject.designation (neo_store h n) = CloseApproach.designation (ca_store h a)"
  shows "\<exists>h' db. NEODatabase_init h neos cas = Inr (h', db)
           \<and> get_neo_by_designation db d = Some (neos ! j)"
proof -
  have split: "neos = take j neos @ neos ! j # drop (Suc j) neos"
    using assms(2) by (rule id_take_nth_drop)
  have later: "\<forall>n\<in>set (drop (Suc j) neos). NearEarthObject.designation (neo_store h n) \<noteq> d"
  proof
    fix n assume "n \<in> set (drop (Suc j) neos)"
    then obtain k where "k < length (drop (Suc j) neos)" "drop (Suc j) neos ! k = n"
      by (auto simp: in_set_conv_nth)
    then have k: "Suc j + k < length neos" "neos ! (Suc j + k) = n" by auto
    from assms(5) have "j < Suc j + k \<and> Suc j + k < length neos \<longrightarrow>
        NearEarthObject.designation (neo_store h (neos ! (Suc j + k))) \<noteq> d"
      by (rule spec)
    with k show "NearEarthObject.designation (neo_store h n) \<noteq> d" by simp
  qed
  have "build_des_dic h neos Map.empty d
      = build_des_dic h (drop (Suc j) neos)
          ((build_des_dic h (take j neos) Map.empty)(d \<mapsto> neos ! j)) d"
    by (subst split) (simp add: build_des_dic_append assms(4))
  also have "\<dots> = Some (neos ! j)"
    using later by (simp add: build_des_dic_absent)
  finally have "build_des_dic h neos Map.empty d = Some (neos ! j)" .
  with NEODatabase_init_total [OF assms(6)] show ?thesis
    by (auto simp: get_neo_by_designation_def)
qed

theorem duplicate_designation_later_neo_wins_witness:
  "NearEarthObject.designation (neo_store twin_heap 0)
     = NearEarthObject.designation (neo_store twin_heap 1)
   \<and> (\<exists>h' db. NEODatabase_init twin_heap [0, 1] [0] = Inr (h', db)
         \<and> get_neo_by_designation db ''2000 AB'' = Some 1)"
  using duplicate_designation_later_neo_wins [of 0 1 "[0, 1]" twin_heap "''2000 AB''" "[0]"]
  by (simp add: twin_heap_def neo_A_def ca_A_def)

section \<open>Constructing a second database\<close>

lemma link_approaches_fixed:
  "\<forall>a\<in>set as. \<exists>n. dic (CloseApproach.designation (ca_store h a)) = Some n
        \<and> assign_link h n (ca_store h a) = ca_store h a \<Longrightarrow>
   link_approaches dic as h = Inr h"
  by (induction as) (auto simp: link_approach_def)

lemma link_neos_fixed:
  "\<forall>n\<in>set ns. with_approaches h cas n = neo_store h n \<Longrightarrow> link_neos cas ns h = h"
proof (induction ns)
  case Nil
  then show ?case by simp
next
  case (Cons n ns)
  then have "link_neo cas n h = h"
    by (simp add: link_neo_def with_approaches_def)
  with Cons show ?case by simp
qed

text \<open>
  C10. Constructing a second database over collections already linked by a successful
  construction leaves the store as it is and returns an equal database: every
  \<open>approaches\<close> list is assigned the same list again (nothing is appended) and every
  approach is assigned the same \<open>neo\<close> and the same copies.
\<close>

theorem construction_idempotent:
  assumes "NEODatabase_init h neos cas = Inr (h', db)"
  shows "NEODatabase_init h' neos cas = Inr (h', db)"
proof -
  from NEODatabase_init_Inr [OF assms] obtain h1 where
    h1: "link_approaches (build_des_dic h neos Map.empty) cas h = Inr h1"
    and h': "h' = link_neos cas neos h1"
    and db: "db = \<lparr> db_neos = neos, db_approaches = cas,
                    neo_des_dic = build_des_dic h neos Map.empty,
                    neo_nam_dic = build_nam_dic h neos Map.empty \<rparr>"
    by blast
  have st: "neo_store h1 = neo_store h" by (rule link_approaches_neo_store [OF h1])
  have des: "build_des_dic h' neos Map.empty = build_des_dic h neos Map.empty"
    by (rule build_des_dic_cong) (simp add: h' link_neos_fields st)
  have nam: "build_nam_dic h' neos Map.empty = build_nam_dic h neos Map.empty"
    by (rule build_nam_dic_cong) (simp add: h' link_neos_fields st)
  have cas': "ca_store h' = ca_store h1" by (simp add: h' link_neos_ca_store)
  have "link_approaches (build_des_dic h neos Map.empty) cas h' = Inr h'"
  proof (rule link_approaches_fixed, rule ballI)
    fix a assume "a \<in> set cas"
    from link_approaches_linked [OF h1 this] obtain n where
      n: "build_des_dic h neos Map.empty (CloseApproach.designation (ca_store h a)) = Some n"
      and ca: "ca_store h1 a = assign_link h n (ca_store h a)"
      by blast
    have ca': "ca_store h' a = assign_link h n (ca_store h a)"
      using cas' ca by simp
    have "assign_link h' n x = assign_link h n x" for x
      by (simp add: assign_link_def h' link_neos_fields st)
    then have "assign_link h' n (ca_store h' a) = ca_store h' a"
      by (simp add: ca' assign_link_idem)
    moreover have "build_des_dic h neos Map.empty (CloseApproach.designation (ca_store h' a)) = Some n"
      by (simp add: ca' assign_link_designation n)
    ultimately show "\<exists>n. build_des_dic h neos Map.empty (CloseApproach.designation (ca_store h' a)) = Some n
        \<and> assign_link h' n (ca_store h' a) = ca_store h' a"
      by blast
  qed
  moreover have "link_neos cas neos h' = h'"
  proof (rule link_neos_fixed, rule ballI)
    fix n assume "n \<in> set neos"
    then show "with_approaches h' cas n = neo_store h' n"
      by (simp add: h' link_neos_neo_store link_neos_ca_store with_approaches_def)
  qed
  ultimately show ?thesis
    by (simp add: NEODatabase_init_def Let_def des nam db)
qed

theorem construction_idempotent_witness:
  "NEODatabase_init scenario_linked [0, 1] [0, 1] = Inr (scenario_linked, scenario_db)"
  using construction_idempotent [OF scenario_constructed] .

section \<open>Queries\<close>

lemma filter_results_empty:
  "filter_results tbl Map.empty h a results = Inr results"
  by (induction tbl arbitrary: results) auto

lemma query_scan_empty: "query_scan F h Map.empty as = (as, None)"
  by (induction as) (simp_all add: filter_results_empty)

text \<open>
  C6. On a constructed database the query with an empty filter mapping yields every
  close approach of the input collection, in input order, and ends without an
  exception; the number yielded is the size of the collection. This holds whatever the
  filter classes do.
\<close>

theorem query_without_filters_yields_all:
  assumes "NEODatabase_init h neos cas = Inr (h', db)"
  shows "query F h' db Map.empty = (cas, None)
         \<and> length (fst (query F h' db Map.empty)) = length cas"
proof -
  from NEODatabase_init_Inr [OF assms] have "db_approaches db = cas" by auto
  then show ?thesis by (simp add: query_def query_scan_empty)
qed

theorem query_without_filters_yields_all_witness:
  "query spec_filt scenario_linked scenario_db Map.empty = ([0, 1], None)"
  using query_without_filters_yields_all [OF scenario_constructed, of spec_filt] by simp

lemma filter_results_agree:
  "\<forall>k\<in>fst ` set tbl. f k = g k \<Longrightarrow>
     filter_results tbl f h a results = filter_results tbl g h a results"
proof (induction tbl arbitrary: results)
  case Nil
  then show ?case by simp
next
  case (Cons kf tbl)
  obtain k c where kf: "kf = (k, c)" by (cases kf)
  from Cons.prems kf have "f k = g k" by simp
  moreover from Cons.prems have "\<forall>k\<in>fst ` set tbl. f k = g k" by simp
  ultimately show ?case using Cons.IH kf
    by (simp split: option.splits sum.splits)
qed

lemma filter_table_keys: "fst ` set (filter_table F) = recognized_keys"
  by (simp add: filter_table_def recognized_keys_def)

lemma query_scan_agree:
  "\<forall>k\<in>recognized_keys. f k = g k \<Longrightarrow> query_scan F h f as = query_scan F h g as"
proof (induction as)
  case Nil
  then show ?case by simp
next
  case (Cons a as)
  from Cons.prems have "filter_results (filter_table F) f h a []
      = filter_results (filter_table F) g h a []"
    by (intro filter_results_agree) (simp add: filter_table_keys)
  moreover from Cons have "query_scan F h f as = query_scan F h g as" by simp
  ultimately show ?case by (simp only: query_scan.simps)
qed

text \<open>
  C9. For every store, database, filter module and filter mapping, the query yields the
  same as for the mapping restricted to the ten recognised keys: any other key is
  ignored.
\<close>

theorem query_ignores_unrecognized_keys:
  "query F h db filters = query F h db (filters |` recognized_keys)"
  unfolding query_def by (rule query_scan_agree) simp

section \<open>Lookup by name\<close>

text \<open>
  C1. In the scenario database NEO B (reference 1) has no name, and yet
  \<open>get_neo_by_name(None)\<close> returns it: the condition of line 38 admits every NEO to
  the name index, the unnamed ones under the key \<open>None\<close>.
\<close>

theorem get_neo_by_name_None_returns_unnamed_neo:
  "NearEarthObject.name (neo_store scenario_linked 1) = None
   \<and> get_neo_by_name scenario_db None = Some 1"
  by (simp add: scenario_db_def scenario_linked_def NEODatabase_init_def Let_def link_approach_def
      link_neo_def with_approaches_def scenario_heap_def get_neo_by_name_def neo_A_def neo_B_def ca_A_def ca_B_def
      assign_link_def)

section \<open>The hazardous filter in the scenario\<close>

lemma scenario_db_approaches: "db_approaches scenario_db = [0, 1]"
proof -
  from NEODatabase_init_Inr [OF scenario_constructed] obtain nd nn where
    eq: "scenario_db = \<lparr> db_neos = [0, 1], db_approaches = [0, 1],
                      neo_des_dic = nd, neo_nam_dic = nn \<rparr>"
    by blast
  show ?thesis by (subst eq) simp
qed

lemma scenario_linked_neo:
  "CloseApproach.neo (ca_store scenario_linked 0) = Some 0"
  "CloseApproach.neo (ca_store scenario_linked (Suc 0)) = Some 1"
  "NearEarthObject.hazardous (neo_store scenario_linked 0) = True"
  "NearEarthObject.hazardous (neo_store scenario_linked (Suc 0)) = False"
  by (simp_all add: scenario_linked_def NEODatabase_init_def Let_def link_approach_def
      link_neo_def with_approaches_def scenario_heap_def neo_A_def neo_B_def ca_A_def ca_B_def assign_link_def)

lemma spec_HazardousFilter_contract:
  "CloseApproach.neo (ca_store scenario_linked a) = Some n \<Longrightarrow>
     HazardousFilter spec_filt (PBool True) x scenario_linked a
       = Inr (NearEarthObject.hazardous (neo_store scenario_linked n) = True)"
  by (cases "a = 0"; cases "a = 1")
     (auto simp add: scenario_linked_def NEODatabase_init_def Let_def link_approach_def
      link_neo_def with_approaches_def scenario_heap_def neo_A_def neo_B_def ca_A_def ca_B_def assign_link_def
      spec_filt_def spec_HazardousFilter_def split: if_splits)

text \<open>
  C2, as stated. With the one-element value \<open>(True,)\<close> under \<open>hazardous\<close> the query on
  the scenario database yields nothing and raises \<open>IndexError\<close>: line 133 evaluates
  \<open>filters['hazardous'][1]\<close>.
\<close>

theorem hazardous_one_element_value_raises:
  "query spec_filt scenario_linked scenario_db [''hazardous'' \<mapsto> [PBool True]]
     = ([], Some IndexError)
   \<and> query spec_filt scenario_linked scenario_db [''hazardous'' \<mapsto> [PBool True]]
     \<noteq> ([0], None)"
  by (simp add: scenario_db_def scenario_linked_def NEODatabase_init_def Let_def link_approach_def
      scenario_heap_def query_def neo_A_def neo_B_def ca_A_def ca_B_def assign_link_def
      filter_table_def run_filter_def)

text \<open>
  C2, amended. With a two-element value \<open>(True, x)\<close> under \<open>hazardous\<close>, and a
  \<open>HazardousFilter\<close> that built from \<open>(True, x)\<close> tells whether the owning NEO's hazard
  flag is true, the query on the scenario database yields exactly the approach of NEO A
  (reference 0) and ends without an exception.
\<close>

theorem hazardous_two_element_value_yields_A:
  assumes "\<forall>a n. CloseApproach.neo (ca_store scenario_linked a) = Some n \<longrightarrow>
             HazardousFilter F (PBool True) x scenario_linked a
               = Inr (NearEarthObject.hazardous (neo_store scenario_linked n) = True)"
  shows "query F scenario_linked scenario_db [''hazardous'' \<mapsto> [PBool True, x]] = ([0], None)"
proof -
  from assms scenario_linked_neo
  have 0: "HazardousFilter F (PBool True) x scenario_linked 0 = Inr True"
    and 1: "HazardousFilter F (PBool True) x scenario_linked (Suc 0) = Inr False"
    by auto
  show ?thesis
    by (simp add: query_def scenario_db_approaches filter_table_def run_filter_def 0 1)
qed

theorem hazardous_two_element_value_yields_A_witness:
  "query spec_filt scenario_linked scenario_db [''hazardous'' \<mapsto> [PBool True, PNone]]
     = ([0], None)"
  using hazardous_two_element_value_yields_A [of spec_filt PNone]
  by (simp add: spec_HazardousFilter_contract)

end
